theory Spec2Isabelle
  imports Complex_Main
begin

section \<open>Errors and results\<close>

text \<open>
  The error enum of \<^verbatim>\<open>rust/src/error.rs\<close> as the plan declares it. A Rust function
  returning \<^verbatim>\<open>Result<T, PluginError>\<close> is modelled with the type \<open>failure + T\<close>:
  \<open>Inr\<close> is \<^verbatim>\<open>Ok\<close>, \<open>Inl (Raised e)\<close> is \<^verbatim>\<open>Err(e)\<close>, and \<open>Inl Panicked\<close> is a
  panic (a failed \<^verbatim>\<open>unwrap\<close>, an index out of bounds, an arithmetic overflow under
  overflow checks), which unwinds without producing any value.
\<close>

datatype plugin_error =
    DimensionalityReductionError string string
  | InvalidVectorDimensions nat nat nat
  | InsufficientData nat nat
  | InvalidLinkIndex nat nat nat
  | ZeroNormVector

datatype failure = Raised plugin_error | Panicked

text \<open>
  \<^verbatim>\<open>iter.map(f).collect()\<close> into a vector, where \<open>f\<close> may fail: the first failure
  in iteration order is the result and nothing of the other items is returned.
\<close>

fun try_collect :: "('e + 'a) list \<Rightarrow> 'e + 'a list" where
  "try_collect [] = Inr []"
| "try_collect (Inl e # rs) = Inl e"
| "try_collect (Inr x # rs) = (case try_collect rs of Inl e \<Rightarrow> Inl e | Inr xs \<Rightarrow> Inr (x # xs))"

section \<open>Machine integers\<close>

text \<open>
  \<^verbatim>\<open>usize\<close> values are natural numbers below \<open>2 ^ usize_bits\<close> (32 on the wasm32
  target the plugin ships, 64 where the tests run). Subtraction on \<^verbatim>\<open>usize\<close>
  panics on underflow when the crate is compiled with overflow checks (the default of
  debug and test builds) and wraps around otherwise (the default of release builds).
  The build profile is not part of the sources, so it is a parameter.
\<close>

record build_profile =
  usize_bits :: nat
  overflow_checks :: bool

definition usize_sub :: "build_profile \<Rightarrow> nat \<Rightarrow> nat \<Rightarrow> nat option" where
  "usize_sub p a b =
     (if b \<le> a then Some (a - b)
      else if overflow_checks p then None
      else Some ((a + 2 ^ usize_bits p - b) mod 2 ^ usize_bits p))"

section \<open>The adjacency matrix builder\<close>

text \<open>
  In the matrix builder \<^verbatim>\<open>f64\<close> is modelled by \<open>real\<close>: every number it produces is an
  integer of magnitude below \<open>2 ^ 53\<close> (a link count, or a difference of such counts),
  which \<^verbatim>\<open>f64\<close> represents exactly, and the builder computes nothing from them.
\<close>

record note_link =
  from_id :: nat
  to_id :: nat

record adjacency_matrix_builder =
  num_notes :: nat
  note_id_map :: "string \<rightharpoonup> nat"

text \<open>
  \<^verbatim>\<open>AdjacencyMatrixBuilder::new\<close>: collecting \<^verbatim>\<open>(path, i)\<close> pairs into a hash map
  keeps the last index of a repeated path.
\<close>

definition new :: "string list \<Rightarrow> adjacency_matrix_builder" where
  "new note_paths =
     \<lparr>num_notes = length note_paths,
      note_id_map = map_of (rev (zip note_paths [0..<length note_paths]))\<rparr>"

text \<open>
  The sparse matrix \<^verbatim>\<open>CsMat<f64>\<close> of the \<^verbatim>\<open>sprs\<close> crate in row-major (CSR) form:
  its shape and its stored cells. \<^verbatim>\<open>outer_view(i)\<close> is \<^verbatim>\<open>None\<close> when \<open>i\<close> is not a
  row; iterating over a row view yields the stored \<^verbatim>\<open>(col, value)\<close> pairs by
  increasing column.
\<close>

record cs_mat =
  rows :: nat
  cols :: nat
  data :: "nat \<times> nat \<rightharpoonup> real"

definition outer_view :: "cs_mat \<Rightarrow> nat \<Rightarrow> (nat \<times> real) list option" where
  "outer_view m i =
     (if i < rows m
      then Some (List.map_filter (\<lambda>col. map_option (Pair col) (data m (i, col))) [0..<cols m])
      else None)"

text \<open>
  The first loop of \<^verbatim>\<open>build\<close>: \<open>link_counts\<close> is the hash map from \<^verbatim>\<open>(from, to)\<close> to
  the number of links seen so far; \<^verbatim>\<open>*entry(k).or_insert(0) += 1\<close> bumps the count
  of \<open>k\<close>. The first link with an index out of range returns the error, with
  \<^verbatim>\<open>max: self.num_notes - 1\<close> computed on \<^verbatim>\<open>usize\<close>. A count cannot overflow: the
  links are held in memory, so there are fewer than \<open>2 ^ usize_bits\<close> of them.
\<close>

fun count_links ::
  "build_profile \<Rightarrow> nat \<Rightarrow> (nat \<times> nat \<rightharpoonup> nat) \<Rightarrow> note_link list \<Rightarrow> failure + (nat \<times> nat \<rightharpoonup> nat)"
where
  "count_links p n link_counts [] = Inr link_counts"
| "count_links p n link_counts (link # links) =
     (if from_id link \<ge> n \<or> to_id link \<ge> n
      then (case usize_sub p n 1 of
              None \<Rightarrow> Inl Panicked
            | Some m \<Rightarrow> Inl (Raised (InvalidLinkIndex (from_id link) (to_id link) m)))
      else count_links p n
             (link_counts((from_id link, to_id link) \<mapsto>
                (case link_counts (from_id link, to_id link) of None \<Rightarrow> 0 | Some c \<Rightarrow> c) + 1))
             links)"

text \<open>
  \<^verbatim>\<open>build\<close>: after the counting loop, one triplet \<^verbatim>\<open>(from, to, count as f64)\<close> is
  added per key of the hash map, and \<^verbatim>\<open>to_csr\<close> stores them. The keys of a hash map
  are distinct, so each stored cell holds exactly its count, whatever the order in which
  the hash map is traversed.
\<close>

definition build :: "build_profile \<Rightarrow> adjacency_matrix_builder \<Rightarrow> note_link list \<Rightarrow> failure + cs_mat" where
  "build p self links =
     (case count_links p (num_notes self) Map.empty links of
        Inl e \<Rightarrow> Inl e
      | Inr link_counts \<Rightarrow>
          Inr \<lparr>rows = num_notes self, cols = num_notes self,
               data = (\<lambda>k. map_option real (link_counts k))\<rparr>)"

text \<open>
  \<^verbatim>\<open>matrix_to_vectors\<close>: row \<open>i\<close> starts as \<^verbatim>\<open>vec![0.0; num_notes]\<close> and every stored
  cell of the row is written with \<^verbatim>\<open>vec[col] = val\<close>, which panics when \<open>col\<close> is out of
  bounds; \<^verbatim>\<open>outer_view(i).unwrap()\<close> panics when the matrix has no row \<open>i\<close>.
\<close>

fun fill_row :: "real list \<Rightarrow> (nat \<times> real) list \<Rightarrow> failure + real list" where
  "fill_row vec [] = Inr vec"
| "fill_row vec ((col, val) # es) =
     (if col < length vec then fill_row (vec[col := val]) es else Inl Panicked)"

definition row_to_vector :: "adjacency_matrix_builder \<Rightarrow> cs_mat \<Rightarrow> nat \<Rightarrow> failure + real list" where
  "row_to_vector self matrix i =
     (case outer_view matrix i of
        None \<Rightarrow> Inl Panicked
      | Some es \<Rightarrow> fill_row (replicate (num_notes self) 0) es)"

definition matrix_to_vectors :: "adjacency_matrix_builder \<Rightarrow> cs_mat \<Rightarrow> failure + real list list" where
  "matrix_to_vectors self matrix =
     try_collect (map (row_to_vector self matrix) [0..<num_notes self])"

text \<open>
  \<^verbatim>\<open>build_adjacency_matrix\<close>, the exported entry point, after its two JSON arguments
  are parsed: build, then flatten.
\<close>

definition build_adjacency_matrix ::
  "build_profile \<Rightarrow> string list \<Rightarrow> note_link list \<Rightarrow> failure + real list list" where
  "build_adjacency_matrix p note_paths links =
     (let builder = new note_paths in
      case build p builder links of
        Inl e \<Rightarrow> Inl e
      | Inr matrix \<Rightarrow> matrix_to_vectors builder matrix)"

text \<open>
  What the claims about the matrix speak of: the number of links from \<open>i\<close> to \<open>j\<close> in the
  input, the number of links leaving \<open>i\<close> (its out-degree), the condition that every index
  is below the node count, and the value of a cell of a sparse matrix (the stored value,
  or 0 where nothing is stored).
\<close>

definition edge_count :: "note_link list \<Rightarrow> nat \<Rightarrow> nat \<Rightarrow> nat" where
  "edge_count links i j = length (filter (\<lambda>l. from_id l = i \<and> to_id l = j) links)"

definition out_links :: "note_link list \<Rightarrow> nat \<Rightarrow> nat" where
  "out_links links i = length (filter (\<lambda>l. from_id l = i) links)"

definition links_in_range :: "nat \<Rightarrow> note_link list \<Rightarrow> bool" where
  "links_in_range n links = list_all (\<lambda>l. from_id l < n \<and> to_id l < n) links"

definition cell :: "cs_mat \<Rightarrow> nat \<Rightarrow> nat \<Rightarrow> real" where
  "cell m i j = (case data m (i, j) of None \<Rightarrow> 0 | Some x \<Rightarrow> x)"

subsection \<open>The Laplacian\<close>

text \<open>
  Modelled from the spec: the Rust function behind \<^verbatim>\<open>build_laplacian_matrix\<close> is not
  among the sources (only its call in \<^verbatim>\<open>AdjacencyMatrixProvider.fetchVectors\<close> is). The
  specification defines it: the diagonal matrix \<open>D\<close> has \<open>D[i][i] = sum_j matrix[i][j]\<close>, the
  out-degree, and the Laplacian is \<open>L = D - matrix\<close>, a pure function of the adjacency
  matrix, flattened to dense vectors like the adjacency matrix. Only non-zero cells are
  stored.
\<close>

definition out_degree :: "cs_mat \<Rightarrow> nat \<Rightarrow> real" where
  "out_degree m i = sum_list (map (cell m i) [0..<cols m])"

definition toLaplacian :: "cs_mat \<Rightarrow> cs_mat" where
  "toLaplacian m =
     \<lparr>rows = rows m, cols = cols m,
      data = (\<lambda>(i, j).
        if i < rows m \<and> j < cols m
        then (let v = (if i = j then out_degree m i else 0) - cell m i j
              in if v = 0 then None else Some v)
        else None)\<rparr>"

section \<open>Double-precision arithmetic\<close>

text \<open>
  The vector operations compute on \<^verbatim>\<open>f64\<close>, where overflow, infinities and NaN decide
  what a caller gets back, so the type is modelled as IEEE 754 binary64 under the default
  rounding (to nearest, ties to even): a finite value with its sign (\<open>True\<close> for minus)
  and magnitude, so that the two zeros are distinct, an infinity with its sign, or NaN.
\<close>

datatype f64 = Finite bool real | Infinity bool | NaN

definition pow2 :: "int \<Rightarrow> real" where
  "pow2 e = (if 0 \<le> e then 2 ^ nat e else 1 / 2 ^ nat (- e))"

definition round_half_even :: "real \<Rightarrow> int" where
  "round_half_even q =
     (let f = \<lfloor>q\<rfloor>; r = q - of_int f in
      if r < 1 / 2 then f else if 1 / 2 < r then f + 1 else if even f then f else f + 1)"

text \<open>
  Rounding a positive real to a representable magnitude: with \<open>2 ^ k \<le> x < 2 ^ (k + 1)\<close>
  the spacing of the doubles around \<open>x\<close> is \<open>2 ^ (k - 52)\<close>, and \<open>2 ^ (- 1074)\<close> in the
  subnormal range; \<open>x\<close> is rounded to the nearest multiple of the spacing, and a result of
  \<open>2 ^ 1024\<close> or more is an overflow (\<open>None\<close>). A magnitude too small rounds to 0.
\<close>

definition round_magnitude :: "real \<Rightarrow> real option" where
  "round_magnitude x =
     (let e = max (- 1074) (\<lfloor>log 2 x\<rfloor> - 52);
          y = of_int (round_half_even (x / pow2 e)) * pow2 e in
      if 2 ^ 1024 \<le> y then None else Some y)"

definition f64_round :: "bool \<Rightarrow> real \<Rightarrow> f64" where
  "f64_round s x =
     (if x = 0 then Finite s 0
      else case round_magnitude x of None \<Rightarrow> Infinity s | Some y \<Rightarrow> Finite s y)"

text \<open>A decimal literal of the source denotes the double nearest to it.\<close>

definition f64_literal :: "real \<Rightarrow> f64" where
  "f64_literal x = f64_round (x < 0) \<bar>x\<bar>"

definition signed :: "bool \<Rightarrow> real \<Rightarrow> real" where
  "signed s x = (if s then - x else x)"

text \<open>
  The operations \<^verbatim>\<open>*\<close>, \<^verbatim>\<open>+\<close>, \<^verbatim>\<open>sqrt\<close>, \<^verbatim>\<open>/\<close> and \<^verbatim>\<open><\<close>: the exact result correctly
  rounded, with the special cases of the standard (NaN propagates, \<open>inf * 0\<close>,
  \<open>inf - inf\<close>, \<open>inf / inf\<close>, \<open>0 / 0\<close> and the square root of a negative number are NaN, an
  exact zero sum is \<open>+0\<close> unless both terms are \<open>-0\<close>, every comparison with NaN is false).
\<close>

fun f64_mul :: "f64 \<Rightarrow> f64 \<Rightarrow> f64" where
  "f64_mul NaN b = NaN"
| "f64_mul a NaN = NaN"
| "f64_mul (Infinity s) (Infinity t) = Infinity (s \<noteq> t)"
| "f64_mul (Infinity s) (Finite t y) = (if y = 0 then NaN else Infinity (s \<noteq> t))"
| "f64_mul (Finite s x) (Infinity t) = (if x = 0 then NaN else Infinity (s \<noteq> t))"
| "f64_mul (Finite s x) (Finite t y) = f64_round (s \<noteq> t) (x * y)"

fun f64_add :: "f64 \<Rightarrow> f64 \<Rightarrow> f64" where
  "f64_add NaN b = NaN"
| "f64_add a NaN = NaN"
| "f64_add (Infinity s) (Infinity t) = (if s = t then Infinity s else NaN)"
| "f64_add (Infinity s) (Finite t y) = Infinity s"
| "f64_add (Finite s x) (Infinity t) = Infinity t"
| "f64_add (Finite s x) (Finite t y) =
     (let v = signed s x + signed t y in
      if v = 0 then Finite (s \<and> t) 0 else f64_round (v < 0) \<bar>v\<bar>)"

fun f64_sqrt :: "f64 \<Rightarrow> f64" where
  "f64_sqrt NaN = NaN"
| "f64_sqrt (Infinity s) = (if s then NaN else Infinity False)"
| "f64_sqrt (Finite s x) =
     (if x = 0 then Finite s 0 else if s then NaN else f64_round False (sqrt x))"

fun f64_div :: "f64 \<Rightarrow> f64 \<Rightarrow> f64" where
  "f64_div NaN b = NaN"
| "f64_div a NaN = NaN"
| "f64_div (Infinity s) (Infinity t) = NaN"
| "f64_div (Infinity s) (Finite t y) = Infinity (s \<noteq> t)"
| "f64_div (Finite s x) (Infinity t) = Finite (s \<noteq> t) 0"
| "f64_div (Finite s x) (Finite t y) =
     (if y = 0 then (if x = 0 then NaN else Infinity (s \<noteq> t))
      else f64_round (s \<noteq> t) (x / y))"

fun f64_lt :: "f64 \<Rightarrow> f64 \<Rightarrow> bool" where
  "f64_lt NaN b = False"
| "f64_lt a NaN = False"
| "f64_lt (Infinity s) (Infinity t) = (s \<and> \<not> t)"
| "f64_lt (Infinity s) (Finite t y) = s"
| "f64_lt (Finite s x) (Infinity t) = (\<not> t)"
| "f64_lt (Finite s x) (Finite t y) = (signed s x < signed t y)"

text \<open>
  \<^verbatim>\<open>iter.sum::<f64>()\<close> folds \<^verbatim>\<open>+\<close> from the left, starting from zero. (Recent
  standard libraries start from \<open>-0.0\<close>; on the squares summed below, none of which is
  \<open>-0.0\<close>, the sum is the same except for the sign of the zero sum of no terms.)
\<close>

definition f64_sum :: "f64 list \<Rightarrow> f64" where
  "f64_sum xs = foldl f64_add (Finite False 0) xs"

section \<open>Vector operations\<close>

text \<open>
  \<^verbatim>\<open>normalize_vectors\<close>. The closure computes the norm as
  \<^verbatim>\<open>vec.iter().map(|x| x * x).sum::<f64>().sqrt()\<close>, returns
  \<^verbatim>\<open>Err(PluginError::ZeroNormVector)\<close> when \<^verbatim>\<open>norm < 1e-10\<close> and the vector divided by
  its norm otherwise; the results are collected into one
  \<^verbatim>\<open>Result<Vec<Vec<f64>>, PluginError>\<close>.
\<close>

definition euclidean_norm :: "f64 list \<Rightarrow> f64" where
  "euclidean_norm vec = f64_sqrt (f64_sum (map (\<lambda>x. f64_mul x x) vec))"

definition normalize_vector :: "f64 list \<Rightarrow> failure + f64 list" where
  "normalize_vector vec =
     (let norm = euclidean_norm vec in
      if f64_lt norm (f64_literal (1 / 10 ^ 10)) then Inl (Raised ZeroNormVector)
      else Inr (map (\<lambda>x. f64_div x norm) vec))"

definition normalize_vectors :: "f64 list list \<Rightarrow> failure + f64 list list" where
  "normalize_vectors vectors = try_collect (map normalize_vector vectors)"

section \<open>Dimensionality reduction\<close>

text \<open>
  Modelled from the spec: the body of \<^verbatim>\<open>SVDReducer::reduce\<close> is not among the sources
  (the plan has \<^verbatim>\<open>todo!("SVD implementation")\<close> in its place). The specification gives
  the algorithm: with \<open>n\<close> vectors of dimension \<open>d\<close>, (1) require \<open>n \<ge> 1\<close> and \<open>d \<ge> 1\<close>,
  otherwise fail with \<open>InsufficientData{required: 1, provided: n or d}\<close>; (2) require
  \<open>k \<le> min(n, d)\<close>, otherwise fail with \<open>InvalidVectorDimensions{expected: \<le> min(n,d),
  got: k}\<close>; (3) to (6) centre the data, decompose and project onto the first \<open>k\<close>
  components. Steps (3) to (6) are numerical and are the parameter \<open>project\<close>. The
  dimension \<open>d\<close> is the length of the first vector (all vectors of a working set share
  it). The error variant has a third field \<open>vector_index\<close> in the plan, on which the
  specification is silent; the model sets it to 0.
\<close>

definition reduce ::
  "(real list list \<Rightarrow> nat \<Rightarrow> failure + real list list) \<Rightarrow> real list list \<Rightarrow> nat \<Rightarrow> failure + real list list"
where
  "reduce project vectors target_dims =
     (let n = length vectors;
          d = (case vectors of [] \<Rightarrow> 0 | v # _ \<Rightarrow> length v) in
      if n < 1 then Inl (Raised (InsufficientData 1 n))
      else if d < 1 then Inl (Raised (InsufficientData 1 d))
      else if target_dims > min n d then Inl (Raised (InvalidVectorDimensions (min n d) target_dims 0))
      else project vectors target_dims)"

section \<open>The TypeScript layer\<close>

subsection \<open>Colour schemes\<close>

text \<open>
  JavaScript numbers that hold integers are modelled by \<open>int\<close>. The remainder \<^verbatim>\<open>a % b\<close>
  takes the sign of the dividend. Reading an array at an index that is not one of its
  indices gives \<^verbatim>\<open>undefined\<close>, here \<open>None\<close>. \<^verbatim>\<open>THREE.Color\<close> is a class of the three.js
  library: a colour is modelled by the argument its constructor was given.
\<close>

definition js_rem :: "int \<Rightarrow> int \<Rightarrow> int" where
  "js_rem a b = sgn a * (\<bar>a\<bar> mod \<bar>b\<bar>)"

definition js_index :: "'a list \<Rightarrow> int \<Rightarrow> 'a option" where
  "js_index xs i = (if 0 \<le> i \<and> i < int (length xs) then Some (xs ! nat i) else None)"

datatype three_color = Color "int option"

definition palette :: "int list" where
  "palette = [0xff6b6b, 0x4ecdc4, 0x45b7d1, 0xf7b731, 0x5f27cd, 0x00d2d3, 0xff9ff3, 0x54a0ff]"

text \<open>The \<^verbatim>\<open>getColor\<close> of the scheme named "Categorical".\<close>

definition categorical_getColor :: "int \<Rightarrow> int \<Rightarrow> three_color" where
  "categorical_getColor index total' = Color (js_index palette (js_rem index (int (length palette))))"

subsection \<open>The vector data manager\<close>

datatype vector_source_type = EMBEDDING_MODEL | ADJACENCY_MATRIX

datatype source_config =
    EmbeddingSourceConfig string string "string option"
  | AdjacencySourceConfig string bool

record vector_source_config =
  type' :: vector_source_type
  id' :: string
  name :: string
  dimensionality :: nat
  config :: source_config

text \<open>
  \<^verbatim>\<open>VectorDataPoint\<close>; its field \<^verbatim>\<open>id\<close> is \<open>point_id\<close> here, and the values of the
  optional \<^verbatim>\<open>metadata\<close> record, untyped in the source, are kept as text.
\<close>

record vector_data_point =
  point_id :: string
  label :: string
  vector :: "real list"
  position3d :: "real list"
  cluster :: nat
  sourceId :: string
  sourceName :: string
  sourceType :: vector_source_type
  metadata :: "(string \<times> string) list option"

text \<open>A thrown JavaScript \<^verbatim>\<open>Error\<close> with its message.\<close>

datatype js_error = Error string

text \<open>
  The two functions imported from the WebAssembly package. Each takes the vectors (as
  JSON text in the source) and a count, and either returns or throws.
\<close>

record wasm_pkg =
  reduce_dimensions_svd :: "real list list \<Rightarrow> nat \<Rightarrow> js_error + real list list"
  cluster_vectors :: "real list list \<Rightarrow> nat \<Rightarrow> js_error + nat list"

text \<open>
  The manager's fields: the in-memory cache, the registered providers (a provider's
  \<^verbatim>\<open>fetchVectors\<close> returns data points or throws) and the vault's name, which
  \<^verbatim>\<open>getCacheKey\<close> reads through the plugin.
\<close>

record vector_data_manager =
  cache :: "string \<rightharpoonup> vector_data_point list"
  sourceProviders ::
    "vector_source_type \<rightharpoonup> (vector_source_config \<Rightarrow> js_error + vector_data_point list)"
  vaultName :: string

fun type_string :: "vector_source_type \<Rightarrow> string" where
  "type_string EMBEDDING_MODEL = ''embedding_model''"
| "type_string ADJACENCY_MATRIX = ''adjacency_matrix''"

definition getCacheKey :: "vector_data_manager \<Rightarrow> vector_source_config \<Rightarrow> string" where
  "getCacheKey this sourceConfig =
     type_string (type' sourceConfig) @ '':'' @ id' sourceConfig @ '':'' @ vaultName this"

datatype reduction_method = Svd | Umap

definition computeReduction ::
  "wasm_pkg \<Rightarrow> real list list \<Rightarrow> reduction_method \<Rightarrow> js_error + real list list" where
  "computeReduction pkg vectors method =
     (case method of
        Svd \<Rightarrow> reduce_dimensions_svd pkg vectors 3
      | Umap \<Rightarrow> Inl (Error ''Unsupported reduction method: umap''))"

definition computeClusters :: "wasm_pkg \<Rightarrow> real list list \<Rightarrow> nat \<Rightarrow> js_error + nat list" where
  "computeClusters pkg vectors numClusters = cluster_vectors pkg vectors numClusters"

text \<open>
  \<^verbatim>\<open>Math.min(10, Math.max(3, Math.floor(vectors.length / 50)))\<close>: an array length is a
  non-negative integer below \<open>2 ^ 32\<close>, on which the floor of the floating-point quotient
  is the integer quotient.
\<close>

definition clusterCount :: "nat \<Rightarrow> nat" where
  "clusterCount vectors_length = min 10 (max 3 (vectors_length div 50))"

text \<open>
  The merge of \<^verbatim>\<open>fetchVectors\<close>: \<^verbatim>\<open>reduced3d[i] || [0, 0, 0]\<close> and
  \<^verbatim>\<open>clusters[i] || 0\<close> fall back when the array has no element \<open>i\<close>.
\<close>

definition merge_results ::
  "vector_data_point list \<Rightarrow> real list list \<Rightarrow> nat list \<Rightarrow> vector_data_point list" where
  "merge_results rawVectors reduced3d clusters =
     map (\<lambda>(v, i). v\<lparr>position3d := (if i < length reduced3d then reduced3d ! i else [0, 0, 0]),
                       cluster := (if i < length clusters then clusters ! i else 0)\<rparr>)
       (zip rawVectors [0..<length rawVectors])"

text \<open>
  \<^verbatim>\<open>VectorDataManager.fetchVectors\<close>: the result (returned points or the rethrown
  error) and the manager afterwards. Only a completed computation is cached.
\<close>

definition fetchVectors ::
  "wasm_pkg \<Rightarrow> vector_data_manager \<Rightarrow> vector_source_config \<Rightarrow>
   (js_error + vector_data_point list) \<times> vector_data_manager" where
  "fetchVectors pkg this sourceConfig =
     (let cacheKey = getCacheKey this sourceConfig in
      case cache this cacheKey of
        Some cached \<Rightarrow> (Inr cached, this)
      | None \<Rightarrow>
         (case sourceProviders this (type' sourceConfig) of
            None \<Rightarrow>
              (Inl (Error (''No provider registered for source type: '' @ type_string (type' sourceConfig))),
               this)
          | Some provider \<Rightarrow>
             (case provider sourceConfig of
                Inl e \<Rightarrow> (Inl e, this)
              | Inr rawVectors \<Rightarrow>
                  if length rawVectors = 0 then (Inr [], this)
                  else
                    (let vectors = map vector rawVectors in
                     case computeReduction pkg vectors Svd of
                       Inl e \<Rightarrow> (Inl e, this)
                     | Inr reduced3d \<Rightarrow>
                        (case computeClusters pkg vectors (clusterCount (length vectors)) of
                           Inl e \<Rightarrow> (Inl e, this)
                         | Inr clusters \<Rightarrow>
                            (let vectorsWithReduction = merge_results rawVectors reduced3d clusters in
                             (Inr vectorsWithReduction,
                              this\<lparr>cache := (cache this)(cacheKey \<mapsto> vectorsWithReduction)\<rparr>)))))))"

subsection \<open>Small vaults\<close>

text \<open>
  Instances on which the manager is run below. A data point as
  \<^verbatim>\<open>AdjacencyMatrixProvider.fetchVectors\<close> builds it (position \<open>[0, 0, 0]\<close>, cluster 0), a
  manager whose adjacency provider returns given points, and the configuration of the
  forward-links source. The package \<open>spec_pkg\<close> behaves as the specification requires of
  the two exported functions: the reduction fails unless \<open>n \<ge> 1\<close>, \<open>d \<ge> 1\<close> and
  \<open>k \<le> min(n, d)\<close>, the clustering fails unless \<open>1 \<le> k \<le> n\<close>; the values they return
  otherwise are stand-ins of the right shape.
\<close>

definition note_point :: "string \<Rightarrow> real list \<Rightarrow> vector_data_point" where
  "note_point path vec =
     \<lparr>point_id = path, label = path, vector = vec, position3d = [0, 0, 0], cluster = 0,
      sourceId = ''forward-links'', sourceName = ''Forward Links Graph'',
      sourceType = ADJACENCY_MATRIX, metadata = None\<rparr>"

definition forward_links_config :: vector_source_config where
  "forward_links_config =
     \<lparr>type' = ADJACENCY_MATRIX, id' = ''forward-links'', name = ''Forward Links Graph'',
      dimensionality = 1, config = AdjacencySourceConfig ''forward-links'' True\<rparr>"

definition vault_manager :: "vector_data_point list \<Rightarrow> vector_data_manager" where
  "vault_manager points =
     \<lparr>cache = Map.empty,
      sourceProviders = [ADJACENCY_MATRIX \<mapsto> (\<lambda>c. Inr points)],
      vaultName = ''vault''\<rparr>"

definition spec_pkg :: wasm_pkg where
  "spec_pkg =
     \<lparr>reduce_dimensions_svd = (\<lambda>vectors k.
         case reduce (\<lambda>vs k. Inr (map (take k) vs)) vectors k of
           Inl e \<Rightarrow> Inl (Error ''Reduction error'')
         | Inr reduced \<Rightarrow> Inr reduced),
      cluster_vectors = (\<lambda>vectors k.
         if 1 \<le> k \<and> k \<le> length vectors then Inr (map (\<lambda>i. i mod k) [0..<length vectors])
         else Inl (Error ''Clustering error''))\<rparr>"

section \<open>Properties of the adjacency matrix builder\<close>

subsection \<open>The counting loop\<close>

lemma count_links_in_range:
  "links_in_range n links \<Longrightarrow>
   \<exists>lc'. count_links p n lc links = Inr lc' \<and>
     (\<forall>i j. (case lc' (i, j) of None \<Rightarrow> 0 | Some c \<Rightarrow> c) =
            (case lc (i, j) of None \<Rightarrow> 0 | Some c \<Rightarrow> c) + edge_count links i j)"
proof (induction links arbitrary: lc)
  case Nil
  then show ?case by (simp add: edge_count_def)
next
  case (Cons l ls)
  let ?lc = "lc((from_id l, to_id l) \<mapsto>
               (case lc (from_id l, to_id l) of None \<Rightarrow> 0 | Some c \<Rightarrow> c) + 1)"
  from Cons.prems have inr: "from_id l < n" "to_id l < n" and rest: "links_in_range n ls"
    by (simp_all add: links_in_range_def)
  from Cons.IH [OF rest, of ?lc] obtain lc' where
    run: "count_links p n ?lc ls = Inr lc'" and
    cnt: "\<And>i j. (case lc' (i, j) of None \<Rightarrow> 0 | Some c \<Rightarrow> c) =
                 (case ?lc (i, j) of None \<Rightarrow> 0 | Some c \<Rightarrow> c) + edge_count ls i j"
    by blast
  have "count_links p n lc (l # ls) = Inr lc'"
    using inr run by simp
  moreover have "(case lc' (i, j) of None \<Rightarrow> 0 | Some c \<Rightarrow> c) =
                 (case lc (i, j) of None \<Rightarrow> 0 | Some c \<Rightarrow> c) + edge_count (l # ls) i j" for i j
    using cnt [of i j] by (auto simp: edge_count_def)
  ultimately show ?case by blast
qed

lemma build_in_range:
  assumes "links_in_range (num_notes self) links"
  shows "\<exists>m. build p self links = Inr m \<and> rows m = num_notes self \<and> cols m = num_notes self \<and>
             (\<forall>i j. cell m i j = real (edge_count links i j))"
proof -
  from count_links_in_range [OF assms, of p Map.empty] obtain lc where
    lc: "count_links p (num_notes self) Map.empty links = Inr lc"
        "\<And>i j. (case lc (i, j) of None \<Rightarrow> 0 | Some c \<Rightarrow> c) = edge_count links i j"
    by auto
  let ?m = "\<lparr>rows = num_notes self, cols = num_notes self,
             data = (\<lambda>k. map_option real (lc k))\<rparr>"
  have "build p self links = Inr ?m"
    by (simp add: build_def lc(1))
  moreover have "cell ?m i j = real (edge_count links i j)" for i j
    using lc(2) [of i j] by (simp add: cell_def split: option.splits)
  ultimately show ?thesis by (intro exI [of _ ?m]) simp
qed

subsection \<open>Flattening a matrix\<close>

lemma fill_row_append:
  "fill_row vec (es @ es') = (case fill_row vec es of Inl e \<Rightarrow> Inl e | Inr v \<Rightarrow> fill_row v es')"
  by (induction vec es rule: fill_row.induct) auto

lemma map_filter_snoc:
  "List.map_filter f (xs @ [x]) = List.map_filter f xs @ (case f x of None \<Rightarrow> [] | Some y \<Rightarrow> [y])"
  by (simp add: List.map_filter_def split: option.splits)

lemma fill_row_cells:
  "m \<le> length vec \<Longrightarrow>
   \<exists>v. fill_row vec (List.map_filter (\<lambda>col. map_option (Pair col) (d col)) [0..<m]) = Inr v \<and>
       length v = length vec \<and>
       (\<forall>j < length vec.
          v ! j = (if j < m then (case d j of None \<Rightarrow> vec ! j | Some x \<Rightarrow> x) else vec ! j))"
proof (induction m)
  case 0
  then show ?case by (simp add: List.map_filter_def)
next
  case (Suc m)
  let ?es = "\<lambda>m. List.map_filter (\<lambda>col. map_option (Pair col) (d col)) [0..<m]"
  from Suc obtain v where v: "fill_row vec (?es m) = Inr v"
    "length v = length vec"
    "\<And>j. j < length vec \<Longrightarrow>
       v ! j = (if j < m then (case d j of None \<Rightarrow> vec ! j | Some x \<Rightarrow> x) else vec ! j)"
    by force
  have step: "?es (Suc m) = ?es m @ (case d m of None \<Rightarrow> [] | Some x \<Rightarrow> [(m, x)])"
    by (simp add: map_filter_snoc split: option.splits)
  show ?case
  proof (cases "d m")
    case None
    then have "fill_row vec (?es (Suc m)) = Inr v"
      using v(1) by (simp only: step fill_row_append) simp
    moreover have
      "v ! j = (if j < Suc m then (case d j of None \<Rightarrow> vec ! j | Some x \<Rightarrow> x) else vec ! j)"
      if "j < length vec" for j
      using v(3) [OF that] None by (cases "j = m") (auto simp: less_Suc_eq)
    ultimately show ?thesis using v(2) by blast
  next
    case (Some x)
    have "m < length v" using Suc.prems v(2) by simp
    then have "fill_row vec (?es (Suc m)) = Inr (v[m := x])"
      using v(1) Some by (simp only: step fill_row_append) simp
    moreover have
      "v[m := x] ! j = (if j < Suc m then (case d j of None \<Rightarrow> vec ! j | Some x \<Rightarrow> x) else vec ! j)"
      if "j < length vec" for j
      using v(3) [OF that] Some that v(2) by (cases "j = m") (auto simp: less_Suc_eq)
    ultimately show ?thesis using v(2) by (intro exI [of _ "v[m := x]"]) simp
  qed
qed

lemma try_collect_map_Inr:
  "(\<And>x. x \<in> set xs \<Longrightarrow> f x = Inr (g x)) \<Longrightarrow> try_collect (map f xs) = Inr (map g xs)"
  by (induction xs) auto

lemma row_to_vector_cells:
  assumes "i < rows m" and "cols m = num_notes self"
  shows "row_to_vector self m i = Inr (map (cell m i) [0..<num_notes self])"
proof -
  let ?n = "num_notes self"
  from fill_row_cells [of ?n "replicate ?n 0" "\<lambda>col. data m (i, col)"]
  obtain v where v: "fill_row (replicate ?n 0)
        (List.map_filter (\<lambda>col. map_option (Pair col) (data m (i, col))) [0..<?n]) = Inr v"
    "length v = ?n"
    "\<And>j. j < ?n \<Longrightarrow> v ! j = (case data m (i, j) of None \<Rightarrow> replicate ?n 0 ! j | Some x \<Rightarrow> x)"
    by auto
  have "v = map (cell m i) [0..<?n]"
    by (rule nth_equalityI) (auto simp: v cell_def split: option.splits)
  then show ?thesis
    using assms v(1) by (simp add: row_to_vector_def outer_view_def)
qed

lemma matrix_to_vectors_cells:
  assumes "rows m = num_notes self" and "cols m = num_notes self"
  shows "matrix_to_vectors self m =
         Inr (map (\<lambda>i. map (cell m i) [0..<num_notes self]) [0..<num_notes self])"
  unfolding matrix_to_vectors_def
  by (rule try_collect_map_Inr) (simp add: row_to_vector_cells assms)

subsection \<open>C1: the dense rows count the edges\<close>

text \<open>
  Claim C1. For every node count \<open>n\<close> and every list of edges whose indices all lie in
  \<open>[0, n)\<close>, \<open>build\<close> succeeds and flattening its matrix yields \<open>n\<close> vectors of length \<open>n\<close>
  whose entry \<open>(i, j)\<close> is the number of edges with \<open>from = i\<close> and \<open>to = j\<close>: repeated
  pairs add up, and a self-edge \<open>(i, i)\<close> is counted in cell \<open>(i, i)\<close>. The result is the
  same under either overflow mode and any width of \<^verbatim>\<open>usize\<close>.
\<close>

theorem adjacency_counts_edges:
  assumes "links_in_range (num_notes self) links"
  shows "\<exists>m. build p self links = Inr m \<and>
             matrix_to_vectors self m =
               Inr (map (\<lambda>i. map (\<lambda>j. real (edge_count links i j)) [0..<num_notes self])
                      [0..<num_notes self])"
proof -
  from build_in_range [OF assms, of p] obtain m where
    m: "build p self links = Inr m" "rows m = num_notes self" "cols m = num_notes self"
       "\<And>i j. cell m i j = real (edge_count links i j)"
    by blast
  have "matrix_to_vectors self m =
        Inr (map (\<lambda>i. map (cell m i) [0..<num_notes self]) [0..<num_notes self])"
    using m(2,3) by (rule matrix_to_vectors_cells)
  with m(1,4) show ?thesis by simp
qed

text \<open>
  The instance of the claim: three notes with the links \<open>0 \<rightarrow> 1\<close>, \<open>0 \<rightarrow> 2\<close>, \<open>1 \<rightarrow> 2\<close>
  give the rows \<open>[0,1,1]\<close>, \<open>[0,0,1]\<close>, \<open>[0,0,0]\<close>; and with a repeated self-link \<open>1 \<rightarrow> 1\<close>
  the cell \<open>(1, 1)\<close> holds 2.
\<close>

theorem adjacency_counts_edges_witness:
  "links_in_range 3
     [\<lparr>from_id = 0, to_id = 1\<rparr>, \<lparr>from_id = 0, to_id = 2\<rparr>, \<lparr>from_id = 1, to_id = 2\<rparr>] \<and>
   build_adjacency_matrix \<lparr>usize_bits = 32, overflow_checks = False\<rparr>
     [''note1.md'', ''note2.md'', ''note3.md'']
     [\<lparr>from_id = 0, to_id = 1\<rparr>, \<lparr>from_id = 0, to_id = 2\<rparr>, \<lparr>from_id = 1, to_id = 2\<rparr>]
   = Inr [[0, 1, 1], [0, 0, 1], [0, 0, 0]] \<and>
   build_adjacency_matrix \<lparr>usize_bits = 32, overflow_checks = False\<rparr>
     [''note1.md'', ''note2.md'']
     [\<lparr>from_id = 1, to_id = 1\<rparr>, \<lparr>from_id = 0, to_id = 1\<rparr>, \<lparr>from_id = 1, to_id = 1\<rparr>]
   = Inr [[0, 1], [0, 2]]"
proof -
  let ?p = "\<lparr>usize_bits = 32, overflow_checks = False\<rparr>"
  let ?l3 = "[\<lparr>from_id = 0, to_id = 1\<rparr>, \<lparr>from_id = 0, to_id = 2\<rparr>, \<lparr>from_id = 1, to_id = 2\<rparr>]"
  let ?l2 = "[\<lparr>from_id = 1, to_id = 1\<rparr>, \<lparr>from_id = 0, to_id = 1\<rparr>, \<lparr>from_id = 1, to_id = 1\<rparr>]"
  have r3: "links_in_range (num_notes (new [''note1.md'', ''note2.md'', ''note3.md''])) ?l3"
    by (simp add: links_in_range_def new_def)
  have r2: "links_in_range (num_notes (new [''note1.md'', ''note2.md''])) ?l2"
    by (simp add: links_in_range_def new_def)
  have u3: "[0..<3] = [0, 1, 2]" and u2: "[0..<2] = [0, 1]"
    by (simp_all add: upt_rec)
  show ?thesis
    using adjacency_counts_edges [OF r3, of ?p] adjacency_counts_edges [OF r2, of ?p]
    by (auto simp: build_adjacency_matrix_def Let_def links_in_range_def new_def edge_count_def u3 u2)
qed

subsection \<open>C2: links out of range\<close>

text \<open>
  With at least one note, the first link out of range makes \<open>build\<close> return
  \<open>InvalidLinkIndex\<close> with that link's indices and \<open>max = n - 1\<close>, whatever follows it
  and whatever the build profile; no matrix is returned.
\<close>

lemma count_links_first_bad:
  assumes "links_in_range n good"
    and "\<not> (from_id bad < n \<and> to_id bad < n)"
  shows "count_links p n lc (good @ bad # rest) =
         (case usize_sub p n 1 of
            None \<Rightarrow> Inl Panicked
          | Some m \<Rightarrow> Inl (Raised (InvalidLinkIndex (from_id bad) (to_id bad) m)))"
  using assms
proof (induction good arbitrary: lc)
  case Nil
  then show ?case by (auto simp: not_less)
next
  case (Cons l ls)
  then show ?case by (simp add: links_in_range_def)
qed

lemma build_rejects_out_of_range:
  assumes "links_in_range (num_notes self) good"
    and "\<not> (from_id bad < num_notes self \<and> to_id bad < num_notes self)"
    and "1 \<le> num_notes self"
  shows "build p self (good @ bad # rest) =
         Inl (Raised (InvalidLinkIndex (from_id bad) (to_id bad) (num_notes self - 1)))"
  using assms(3) by (simp add: build_def count_links_first_bad [OF assms(1,2)] usize_sub_def)

text \<open>
  With no note at all every link is out of range, and \<^verbatim>\<open>self.num_notes - 1\<close> underflows:
  the call panics under overflow checks, and otherwise the error carries the wrapped
  value \<open>2 ^ usize_bits - 1\<close> as \<open>max\<close>.
\<close>

lemma build_no_notes:
  assumes "num_notes self = 0"
  shows "build p self (link # links) =
         (if overflow_checks p then Inl Panicked
          else Inl (Raised (InvalidLinkIndex (from_id link) (to_id link)
                      ((2 ^ usize_bits p - 1) mod 2 ^ usize_bits p))))"
  using assms by (simp add: build_def usize_sub_def)

text \<open>
  Claim C2, at the node count 0. The claim asks for the structured error
  \<open>InvalidLinkIndex{from, to, max = n - 1}\<close> for every node count, 0 included. On an
  empty list of notes and the single link \<open>0 \<rightarrow> 0\<close>, \<open>build\<close> panics when compiled with
  overflow checks, and returns \<open>InvalidLinkIndex\<close> with \<open>max = 4294967295\<close> on a 32-bit
  target without them: in neither case is \<open>max\<close> the number \<open>n - 1\<close>.
\<close>

theorem build_no_notes_underflow:
  "build \<lparr>usize_bits = 32, overflow_checks = True\<rparr> (new []) [\<lparr>from_id = 0, to_id = 0\<rparr>]
     = Inl Panicked \<and>
   build \<lparr>usize_bits = 32, overflow_checks = False\<rparr> (new []) [\<lparr>from_id = 0, to_id = 0\<rparr>]
     = Inl (Raised (InvalidLinkIndex 0 0 4294967295))"
  by (simp add: build_def new_def usize_sub_def)

subsection \<open>C3: row sums of the adjacency matrix and of the Laplacian\<close>

lemma sum_list_upt: "sum_list (map f [0..<n]) = (\<Sum>j<n. f j)"
  by (simp add: interv_sum_list_conv_sum_set_nat lessThan_atLeast0)

lemma edge_count_row_sum:
  "links_in_range n links \<Longrightarrow> (\<Sum>j<n. edge_count links i j) = out_links links i"
proof (induction links)
  case Nil
  then show ?case by (simp add: edge_count_def out_links_def)
next
  case (Cons l ls)
  then have to: "to_id l < n" and rest: "links_in_range n ls"
    by (simp_all add: links_in_range_def)
  have "edge_count (l # ls) i j =
        (if from_id l = i \<and> j = to_id l then 1 else 0) + edge_count ls i j" for j
    by (auto simp: edge_count_def)
  then have "(\<Sum>j<n. edge_count (l # ls) i j) =
             (\<Sum>j<n. if from_id l = i \<and> j = to_id l then 1 else 0) + (\<Sum>j<n. edge_count ls i j)"
    by (simp add: sum.distrib)
  moreover have "(\<Sum>j<n. if from_id l = i \<and> j = to_id l then 1 else 0) =
                 (if from_id l = i then 1 else (0::nat))"
    using to by (cases "from_id l = i") simp_all
  ultimately show ?case
    using Cons.IH [OF rest] by (simp add: out_links_def)
qed

lemma cell_toLaplacian:
  "i < rows m \<Longrightarrow> j < cols m \<Longrightarrow>
   cell (toLaplacian m) i j = (if i = j then out_degree m i else 0) - cell m i j"
  by (simp add: toLaplacian_def cell_def Let_def)

lemma degree_minus_row_sum:
  assumes "i < (n::nat)"
  shows "(\<Sum>j<n. (if i = j then (\<Sum>j<n. a j) else 0) - a j) = (0::real)"
proof -
  have "(\<Sum>j<n. (if i = j then (\<Sum>j<n. a j) else 0) - a j) =
        (\<Sum>j<n. if i = j then (\<Sum>j<n. a j) else 0) - (\<Sum>j<n. a j)"
    by (simp add: sum_subtractf)
  moreover have "(\<Sum>j<n. if i = j then (\<Sum>j<n. a j) else 0) = (\<Sum>j<n. a j)"
    using assms by simp
  ultimately show ?thesis by simp
qed

text \<open>
  Claim C3. For every adjacency matrix produced by a valid build, with \<open>A\<close> its dense rows
  and \<open>L\<close> the dense rows of its Laplacian: row \<open>i\<close> of \<open>A\<close> sums to the out-degree of node
  \<open>i\<close> (the number of links leaving \<open>i\<close>, self-links included); \<open>L = D - A\<close> where \<open>D\<close> is
  diagonal with the out-degrees on the diagonal; and every row of \<open>L\<close> sums to exactly 0.
\<close>

theorem laplacian_rows_sum_to_zero:
  assumes "links_in_range (num_notes self) links"
  shows "\<exists>m A L. build p self links = Inr m \<and>
           matrix_to_vectors self m = Inr A \<and>
           matrix_to_vectors self (toLaplacian m) = Inr L \<and>
           (\<forall>i < num_notes self.
              sum_list (A ! i) = real (out_links links i) \<and>
              (\<forall>j < num_notes self.
                 L ! i ! j = (if i = j then real (out_links links i) else 0) - A ! i ! j) \<and>
              sum_list (L ! i) = 0)"
proof -
  let ?n = "num_notes self"
  from build_in_range [OF assms, of p] obtain m where
    m: "build p self links = Inr m" "rows m = ?n" "cols m = ?n"
       "\<And>i j. cell m i j = real (edge_count links i j)"
    by blast
  let ?A = "map (\<lambda>i. map (cell m i) [0..<?n]) [0..<?n]"
  let ?L = "map (\<lambda>i. map (cell (toLaplacian m) i) [0..<?n]) [0..<?n]"
  have A: "matrix_to_vectors self m = Inr ?A"
    using m(2,3) by (rule matrix_to_vectors_cells)
  have L: "matrix_to_vectors self (toLaplacian m) = Inr ?L"
    by (rule matrix_to_vectors_cells) (simp_all add: toLaplacian_def m)
  have deg: "out_degree m i = real (out_links links i)" for i
    using edge_count_row_sum [OF assms, of i]
    by (simp add: out_degree_def m sum_list_upt flip: of_nat_sum)
  have rowA: "sum_list (?A ! i) = real (out_links links i)" if "i < ?n" for i
    using that deg [of i] by (simp add: out_degree_def m(3))
  have cellL: "?L ! i ! j = (if i = j then real (out_links links i) else 0) - ?A ! i ! j"
    if "i < ?n" "j < ?n" for i j
    using that by (simp add: cell_toLaplacian m deg)
  have rowL: "sum_list (?L ! i) = 0" if "i < ?n" for i
  proof -
    have od: "out_degree m i = (\<Sum>j<?n. cell m i j)"
      by (simp add: out_degree_def sum_list_upt m(3))
    have "sum_list (?L ! i) = (\<Sum>j<?n. (if i = j then out_degree m i else 0) - cell m i j)"
      using that by (simp add: sum_list_upt cell_toLaplacian m(2,3))
    also have "\<dots> = (\<Sum>j<?n. (if i = j then (\<Sum>j<?n. cell m i j) else 0) - cell m i j)"
      by (simp only: od)
    finally show ?thesis using degree_minus_row_sum [OF that] by simp
  qed
  show ?thesis
    using m(1) A L rowA cellL rowL by (intro exI [of _ m] exI [of _ ?A] exI [of _ ?L]) simp
qed

text \<open>
  The example of the specification: with the links \<open>0 \<rightarrow> 1\<close>, \<open>0 \<rightarrow> 2\<close>, \<open>1 \<rightarrow> 2\<close> on three
  notes the Laplacian rows are \<open>[2,-1,-1]\<close>, \<open>[0,1,-1]\<close>, \<open>[0,0,0]\<close>, each summing to 0.
\<close>

theorem laplacian_rows_sum_to_zero_witness:
  "links_in_range 3
     [\<lparr>from_id = 0, to_id = 1\<rparr>, \<lparr>from_id = 0, to_id = 2\<rparr>, \<lparr>from_id = 1, to_id = 2\<rparr>] \<and>
   (\<exists>m. build \<lparr>usize_bits = 32, overflow_checks = False\<rparr>
          (new [''note1.md'', ''note2.md'', ''note3.md''])
          [\<lparr>from_id = 0, to_id = 1\<rparr>, \<lparr>from_id = 0, to_id = 2\<rparr>, \<lparr>from_id = 1, to_id = 2\<rparr>] = Inr m \<and>
        matrix_to_vectors (new [''note1.md'', ''note2.md'', ''note3.md'']) m
          = Inr [[0, 1, 1], [0, 0, 1], [0, 0, 0]] \<and>
        matrix_to_vectors (new [''note1.md'', ''note2.md'', ''note3.md'']) (toLaplacian m)
          = Inr [[2, -1, -1], [0, 1, -1], [0, 0, 0]]) \<and>
   sum_list [2, -1, -1 :: real] = 0 \<and> sum_list [0, 1, -1 :: real] = 0 \<and> sum_list [0, 0, 0 :: real] = 0"
proof -
  let ?p = "\<lparr>usize_bits = 32, overflow_checks = False\<rparr>"
  let ?b = "new [''note1.md'', ''note2.md'', ''note3.md'']"
  let ?l3 = "[\<lparr>from_id = 0, to_id = 1\<rparr>, \<lparr>from_id = 0, to_id = 2\<rparr>, \<lparr>from_id = 1, to_id = 2\<rparr>]"
  have n: "num_notes ?b = 3" by (simp add: new_def)
  have r3: "links_in_range (num_notes ?b) ?l3"
    by (simp add: links_in_range_def new_def)
  have u3: "[0..<3] = [0, 1, 2]"
    by (simp add: upt_rec)
  from build_in_range [OF r3, of ?p] obtain m where
    m: "build ?p ?b ?l3 = Inr m" and rc: "rows m = 3" "cols m = 3"
    and c: "\<And>i j. cell m i j = real (edge_count ?l3 i j)"
    by (auto simp: n)
  have "matrix_to_vectors ?b m = Inr [[0, 1, 1], [0, 0, 1], [0, 0, 0]]"
    using matrix_to_vectors_cells [of m ?b] by (simp add: rc n u3 c edge_count_def)
  moreover have rcL: "rows (toLaplacian m) = 3" "cols (toLaplacian m) = 3"
    by (simp_all add: toLaplacian_def rc)
  have "matrix_to_vectors ?b (toLaplacian m) = Inr [[2, -1, -1], [0, 1, -1], [0, 0, 0]]"
    using matrix_to_vectors_cells [of "toLaplacian m" ?b]
    by (simp add: rc rcL n u3 c cell_toLaplacian out_degree_def edge_count_def)
  ultimately show ?thesis
    using m laplacian_rows_sum_to_zero [OF r3, of ?p] by (auto simp: links_in_range_def)
qed

section \<open>Properties of the vector operations\<close>

subsection \<open>Rounding at particular values\<close>

lemma pow2_powr: "pow2 e = 2 powr (of_int e)"
  by (simp add: pow2_def powr_int)

lemma floor_log2_eq: "0 < x \<Longrightarrow> pow2 k \<le> x \<Longrightarrow> x < pow2 (k + 1) \<Longrightarrow> \<lfloor>log 2 x\<rfloor> = k"
  by (simp add: floor_log_eq_powr_iff pow2_powr)

lemma round_half_even_int: "round_half_even (of_int n) = n"
  by (simp add: round_half_even_def)

lemma round_magnitude_eq:
  assumes "0 < x" and "pow2 k \<le> x" and "x < pow2 (k + 1)"
    and "e = max (- 1074) (k - 52)"
    and "round_half_even (x / pow2 e) = m"
    and "y = of_int m * pow2 e"
  shows "round_magnitude x = (if 2 ^ 1024 \<le> y then None else Some y)"
  using assms by (simp add: round_magnitude_def floor_log2_eq Let_def)

lemma pow2_pos: "0 < pow2 e"
  by (simp add: pow2_def)

lemma round_magnitude_exact:
  assumes "0 < x" and "pow2 k \<le> x" and "x < pow2 (k + 1)"
    and "x / pow2 (max (- 1074) (k - 52)) = of_int m"
    and "x < 2 ^ 1024"
  shows "round_magnitude x = Some x"
proof -
  let ?e = "max (- 1074) (k - 52)"
  have "round_half_even (x / pow2 ?e) = m"
    by (simp only: assms(4) round_half_even_int)
  moreover have "x = of_int m * pow2 ?e"
    using assms(4) pow2_pos [of ?e] by (simp add: field_simps)
  ultimately have "round_magnitude x = (if 2 ^ 1024 \<le> x then None else Some x)"
    using round_magnitude_eq [OF assms(1-3) refl, of m x] by simp
  with assms(5) show ?thesis by simp
qed

lemma f64_round_exact:
  assumes "0 < x" and "pow2 k \<le> x" and "x < pow2 (k + 1)"
    and "x / pow2 (max (- 1074) (k - 52)) = of_int m"
    and "x < 2 ^ 1024"
  shows "f64_round s x = Finite s x"
  using assms(1) round_magnitude_exact [OF assms] by (simp add: f64_round_def)

lemma f64_round_9: "f64_round s 9 = Finite s 9"
  by (rule f64_round_exact [of 9 3 "9 * 2 ^ 49"]) (simp_all add: pow2_def)

lemma f64_round_16: "f64_round s 16 = Finite s 16"
  by (rule f64_round_exact [of 16 4 "2 ^ 52"]) (simp_all add: pow2_def)

lemma f64_round_25: "f64_round s 25 = Finite s 25"
  by (rule f64_round_exact [of 25 4 "25 * 2 ^ 48"]) (simp_all add: pow2_def)

lemma f64_round_5: "f64_round s 5 = Finite s 5"
  by (rule f64_round_exact [of 5 2 "5 * 2 ^ 50"]) (simp_all add: pow2_def)

text \<open>
  The literals \<^verbatim>\<open>1e-10\<close> and \<^verbatim>\<open>0.6\<close> as doubles (\<open>0x3DDB7CDFD9D7BDBB\<close> and
  \<open>0x3FE3333333333333\<close>), and the overflow of the square of \<open>2 ^ 600\<close>.
\<close>

lemma eps_value: "f64_literal (1 / 10 ^ 10) = Finite False (7737125245533627 / 2 ^ 86)"
proof -
  have q: "(1 / 10 ^ 10) / pow2 (- 86) = (2 ^ 86 / 10 ^ 10 :: real)"
    by (simp add: pow2_def)
  have fl: "\<lfloor>2 ^ 86 / 10 ^ 10 :: real\<rfloor> = 7737125245533626"
    by simp
  have e: "max (- 1074) (- 34 - 52) = (- 86 :: int)" by simp
  have r: "round_half_even (2 ^ 86 / 10 ^ 10) = 7737125245533627"
    unfolding round_half_even_def Let_def fl by simp
  have m: "round_half_even ((1 / 10 ^ 10) / pow2 (max (- 1074) (- 34 - 52))) = 7737125245533627"
    by (simp only: e q r)
  have "round_magnitude (1 / 10 ^ 10) =
        (if 2 ^ 1024 \<le> (of_int 7737125245533627 * pow2 (max (- 1074) (- 34 - 52)) :: real) then None
         else Some (of_int 7737125245533627 * pow2 (max (- 1074) (- 34 - 52))))"
    by (rule round_magnitude_eq [where k = "- 34", OF _ _ _ refl m refl]) (simp_all add: pow2_def)
  then have "round_magnitude (1 / 10 ^ 10) = Some (7737125245533627 / 2 ^ 86)"
    by (simp add: pow2_def)
  then show ?thesis
    by (simp add: f64_literal_def f64_round_def)
qed

lemma literal_0_6: "f64_literal (6 / 10) = Finite False (5404319552844595 / 2 ^ 53)"
proof -
  have q: "(6 / 10) / pow2 (- 53) = (6 * 2 ^ 53 / 10 :: real)"
    by (simp add: pow2_def)
  have fl: "\<lfloor>6 * 2 ^ 53 / 10 :: real\<rfloor> = 5404319552844595"
    by simp
  have e: "max (- 1074) (- 1 - 52) = (- 53 :: int)" by simp
  have r: "round_half_even (6 * 2 ^ 53 / 10) = 5404319552844595"
    unfolding round_half_even_def Let_def fl by simp
  have m: "round_half_even ((6 / 10) / pow2 (max (- 1074) (- 1 - 52))) = 5404319552844595"
    by (simp only: e q r)
  have "round_magnitude (6 / 10) =
        (if 2 ^ 1024 \<le> (of_int 5404319552844595 * pow2 (max (- 1074) (- 1 - 52)) :: real) then None
         else Some (of_int 5404319552844595 * pow2 (max (- 1074) (- 1 - 52))))"
    by (rule round_magnitude_eq [where k = "- 1", OF _ _ _ refl m refl]) (simp_all add: pow2_def)
  then have "round_magnitude (6 / 10) = Some (5404319552844595 / 2 ^ 53)"
    by (simp add: pow2_def)
  then show ?thesis
    by (simp add: f64_literal_def f64_round_def)
qed

lemma overflow_square: "f64_round False (2 ^ 600 * 2 ^ 600) = Infinity False"
proof -
  have x: "(2 ^ 600 * 2 ^ 600 :: real) = 2 ^ 1200" by simp
  have m: "round_half_even (2 ^ 1200 / pow2 (max (- 1074) (1200 - 52))) = 2 ^ 52"
    using round_half_even_int [of "2 ^ 52"] by (simp add: pow2_def)
  have "round_magnitude (2 ^ 1200) =
        (if 2 ^ 1024 \<le> (of_int (2 ^ 52) * pow2 (max (- 1074) (1200 - 52)) :: real) then None
         else Some (of_int (2 ^ 52) * pow2 (max (- 1074) (1200 - 52))))"
    by (rule round_magnitude_eq [where k = 1200, OF _ _ _ refl m refl]) (simp_all add: pow2_def)
  then have "round_magnitude (2 ^ 1200) = None"
    by (simp add: pow2_def)
  then show ?thesis
    by (simp add: f64_round_def x)
qed

subsection \<open>C7: normalisation fails as a whole\<close>

lemma f64_literal_nonneg: "0 \<le> x \<Longrightarrow> f64_literal x = f64_round False x"
  by (simp add: f64_literal_def)

lemma norm_3_4: "euclidean_norm [Finite False 3, Finite False 4] = Finite False 5"
proof -
  have "sqrt 25 = 5" by (rule real_sqrt_unique) simp_all
  then show ?thesis
    by (simp add: euclidean_norm_def f64_sum_def signed_def f64_round_9 f64_round_16
          f64_round_25 f64_round_5)
qed

lemma norm_zero: "euclidean_norm [Finite False 0, Finite False 0] = Finite False 0"
  by (simp add: euclidean_norm_def f64_sum_def signed_def f64_round_def)

lemma norm_huge: "euclidean_norm [Finite False (2 ^ 600)] = Infinity False"
proof -
  have "f64_mul (Finite False (2 ^ 600)) (Finite False (2 ^ 600)) = Infinity False"
    by (simp only: f64_mul.simps simp_thms overflow_square)
  then show ?thesis
    by (simp only: euclidean_norm_def f64_sum_def list.map foldl.simps f64_add.simps
          f64_sqrt.simps if_False)
qed

lemma norm_nan: "euclidean_norm [NaN] = NaN"
  by (simp add: euclidean_norm_def f64_sum_def)

lemma normalize_3_4:
  "normalize_vector [Finite False 3, Finite False 4] =
     Inr [f64_literal (6 / 10), f64_literal (8 / 10)]"
  unfolding normalize_vector_def Let_def norm_3_4 eps_value
  by (simp add: signed_def f64_literal_nonneg)

lemma normalize_zero:
  "normalize_vector [Finite False 0, Finite False 0] = Inl (Raised ZeroNormVector)"
  unfolding normalize_vector_def Let_def norm_zero eps_value
  by (simp add: signed_def)

lemma normalize_huge:
  "normalize_vector [Finite False (2 ^ 600)] = Inr [Finite False 0]"
  unfolding normalize_vector_def Let_def norm_huge eps_value
  by (simp only: f64_lt.simps if_False list.map f64_div.simps simp_thms)

lemma normalize_nan: "normalize_vector [NaN] = Inr [NaN]"
  unfolding normalize_vector_def Let_def norm_nan
  by simp

text \<open>
  Claim C7, as stated, on four inputs. The claim has a vector of norm below the epsilon
  fail alone, so that a caller can skip it and keep the rest, and has \<open>normalize\<close> never
  return a zero or NaN vector. On a batch of \<open>[3, 4]\<close> and the zero vector, in either
  order, the call returns the single error \<open>ZeroNormVector\<close> for the whole batch: the
  normalised \<open>[0.6, 0.8]\<close>, which \<open>[3, 4]\<close> yields when passed alone, is not returned, and the
  error does not say which vector failed. On the vector \<open>[2 ^ 600]\<close> (about \<open>4.15e180\<close>) the
  square overflows, the norm is \<open>+inf\<close>, which is not below the epsilon, and the call
  succeeds with the zero vector \<open>[0.0]\<close>. On \<open>[NaN]\<close> the norm is NaN, the comparison is
  false, and the call succeeds with \<open>[NaN]\<close>.
\<close>

theorem normalize_vectors_batch_counterexample:
  "normalize_vectors [[Finite False 3, Finite False 4], [Finite False 0, Finite False 0]]
     = Inl (Raised ZeroNormVector) \<and>
   normalize_vectors [[Finite False 0, Finite False 0], [Finite False 3, Finite False 4]]
     = Inl (Raised ZeroNormVector) \<and>
   normalize_vectors [[Finite False 3, Finite False 4]]
     = Inr [[f64_literal (6 / 10), f64_literal (8 / 10)]] \<and>
   normalize_vectors [[Finite False (2 ^ 600)]] = Inr [[Finite False 0]] \<and>
   normalize_vectors [[NaN]] = Inr [[NaN]]"
  by (simp only: normalize_vectors_def list.map normalize_3_4 normalize_zero normalize_huge
        normalize_nan try_collect.simps sum.case simp_thms)

text \<open>
  Claim C7, amended. \<open>normalize_vectors\<close> divides each input vector by its Euclidean norm,
  both computed in \<^verbatim>\<open>f64\<close> (so \<open>[3, 4]\<close> maps to \<open>[0.6, 0.8]\<close>); as soon as one vector of
  the batch has a computed norm below \<open>1e-10\<close> the whole call fails with the single error
  \<open>ZeroNormVector\<close> and returns no vector at all.
\<close>

theorem normalize_vectors_all_or_nothing:
  "normalize_vectors vs =
     (if list_ex (\<lambda>v. f64_lt (euclidean_norm v) (f64_literal (1 / 10 ^ 10))) vs
      then Inl (Raised ZeroNormVector)
      else Inr (map (\<lambda>v. map (\<lambda>x. f64_div x (euclidean_norm v)) v) vs)) \<and>
   normalize_vectors [[Finite False 3, Finite False 4]] =
     Inr [[f64_literal (6 / 10), f64_literal (8 / 10)]]"
proof
  show "normalize_vectors vs =
     (if list_ex (\<lambda>v. f64_lt (euclidean_norm v) (f64_literal (1 / 10 ^ 10))) vs
      then Inl (Raised ZeroNormVector)
      else Inr (map (\<lambda>v. map (\<lambda>x. f64_div x (euclidean_norm v)) v) vs))"
    by (induction vs) (auto simp: normalize_vectors_def normalize_vector_def Let_def)
  show "normalize_vectors [[Finite False 3, Finite False 4]] =
     Inr [[f64_literal (6 / 10), f64_literal (8 / 10)]]"
    by (simp add: normalize_vectors_def normalize_3_4)
qed

section \<open>Properties of the dimensionality reducer\<close>

subsection \<open>C5: sizes that reduce rejects\<close>

text \<open>
  Claim C5. With \<open>n\<close> input vectors of dimension \<open>d\<close>: \<open>reduce\<close> fails with
  \<open>InsufficientData{required: 1, provided: n}\<close> when \<open>n < 1\<close> and with
  \<open>InsufficientData{required: 1, provided: d}\<close> when \<open>d < 1\<close>; once both are at least 1,
  it fails with \<open>InvalidVectorDimensions{expected: min(n, d), got: k}\<close> whenever
  \<open>k > min(n, d)\<close>; and it returns a result only when \<open>k \<le> min(n, d)\<close>, the result being
  the projection itself, neither truncated nor padded. The size checks come in the order
  of the specification, so that an empty input with \<open>k > 0\<close> is reported as
  \<open>InsufficientData\<close>.
\<close>

theorem reduce_rejects_bad_sizes:
  "(length vectors < 1 \<longrightarrow>
      reduce project vectors k = Inl (Raised (InsufficientData 1 (length vectors)))) \<and>
   (1 \<le> length vectors \<and> length (hd vectors) < 1 \<longrightarrow>
      reduce project vectors k = Inl (Raised (InsufficientData 1 (length (hd vectors))))) \<and>
   (1 \<le> length vectors \<and> 1 \<le> length (hd vectors) \<and>
    min (length vectors) (length (hd vectors)) < k \<longrightarrow>
      (\<exists>vector_index. reduce project vectors k =
         Inl (Raised (InvalidVectorDimensions (min (length vectors) (length (hd vectors))) k
                vector_index)))) \<and>
   (\<forall>out. reduce project vectors k = Inr out \<longrightarrow>
      k \<le> min (length vectors) (length (hd vectors)) \<and> project vectors k = Inr out)"
  by (cases vectors) (auto simp: reduce_def Let_def)

theorem reduce_rejects_bad_sizes_witness:
  "reduce (\<lambda>vs k. Inr (map (take k) vs)) [] 3 = Inl (Raised (InsufficientData 1 0)) \<and>
   reduce (\<lambda>vs k. Inr (map (take k) vs)) [[], []] 1 = Inl (Raised (InsufficientData 1 0)) \<and>
   (\<exists>vector_index. reduce (\<lambda>vs k. Inr (map (take k) vs)) [[1, 2, 3, 4], [5, 6, 7, 8]] 3 =
      Inl (Raised (InvalidVectorDimensions 2 3 vector_index))) \<and>
   reduce (\<lambda>vs k. Inr (map (take k) vs)) [[1, 2, 3, 4], [5, 6, 7, 8]] 2 = Inr [[1, 2], [5, 6]]"
  using reduce_rejects_bad_sizes [of "[]" "\<lambda>vs k. Inr (map (take k) vs)" 3]
    reduce_rejects_bad_sizes [of "[[], []]" "\<lambda>vs k. Inr (map (take k) vs)" 1]
    reduce_rejects_bad_sizes [of "[[1, 2, 3, 4], [5, 6, 7, 8]]" "\<lambda>vs k. Inr (map (take k) vs)" 3]
    reduce_rejects_bad_sizes [of "[[1, 2, 3, 4], [5, 6, 7, 8]]" "\<lambda>vs k. Inr (map (take k) vs)" 2]
  by (simp add: reduce_def numeral_2_eq_2)

section \<open>Properties of the TypeScript layer\<close>

subsection \<open>C9: the number of clusters requested\<close>

lemma clusterCount_bounds: "3 \<le> clusterCount n \<and> clusterCount n \<le> 10"
  by (simp add: clusterCount_def)

lemma fetchVectors_provider_result:
  assumes "cache this (getCacheKey this sourceConfig) = None"
    and "sourceProviders this (type' sourceConfig) = Some provider"
    and "provider sourceConfig = Inr rawVectors"
    and "1 \<le> length rawVectors"
  shows "fetchVectors pkg this sourceConfig =
           (case reduce_dimensions_svd pkg (map vector rawVectors) 3 of
              Inl e \<Rightarrow> (Inl e, this)
            | Inr reduced3d \<Rightarrow>
               (case cluster_vectors pkg (map vector rawVectors) (clusterCount (length rawVectors)) of
                  Inl e \<Rightarrow> (Inl e, this)
                | Inr clusters \<Rightarrow>
                    (Inr (merge_results rawVectors reduced3d clusters),
                     this\<lparr>cache := (cache this)(getCacheKey this sourceConfig \<mapsto>
                                      merge_results rawVectors reduced3d clusters)\<rparr>)))"
proof -
  from assms(4) have ne: "(length rawVectors = 0) = False" by arith
  show ?thesis
    unfolding fetchVectors_def Let_def computeReduction_def computeClusters_def
    by (simp only: assms(1,2,3) ne option.case sum.case reduction_method.case if_False length_map)
qed

text \<open>
  Claim C9, as stated, on a vault with one note and a package that follows the
  specification. The claim has every input of one or two vectors sent to the clustering
  call. \<open>fetchVectors\<close> calls the reduction to 3 dimensions first; on a single vector of
  dimension 1 that call throws, since \<open>3 > min(1, 1)\<close>, and \<open>fetchVectors\<close> rethrows its
  error: the result is the same when the clustering function is replaced by one that
  always returns, so the clustering call is never made.
\<close>

theorem fetchVectors_reduction_throws_counterexample:
  "fetchVectors spec_pkg (vault_manager [note_point ''a.md'' [0]]) forward_links_config =
     (Inl (Error ''Reduction error''), vault_manager [note_point ''a.md'' [0]]) \<and>
   fetchVectors (spec_pkg\<lparr>cluster_vectors := (\<lambda>vectors k. Inr (map (\<lambda>v. 0) vectors))\<rparr>)
     (vault_manager [note_point ''a.md'' [0]]) forward_links_config =
     (Inl (Error ''Reduction error''), vault_manager [note_point ''a.md'' [0]])"
  by (simp add: fetchVectors_def computeReduction_def spec_pkg_def reduce_def vault_manager_def
        forward_links_config_def note_point_def Let_def)

text \<open>
  Claim C9, amended. When the provider of a source returns \<open>n \<ge> 1\<close> vectors,
  \<open>fetchVectors\<close> first calls the reduction to 3 dimensions on them; if that call throws,
  its error is rethrown and no clustering is requested. If it returns, \<open>fetchVectors\<close>
  calls the clustering function on the same vectors with exactly
  \<open>min(10, max(3, floor(n / 50)))\<close> clusters, and its outcome is that call's: the error
  rethrown, or the merged points, which are cached. The count lies in \<open>[3, 10]\<close>, and it
  exceeds \<open>n\<close> whenever \<open>n < 3\<close>, so an input of one or two vectors that reaches the
  clustering call is sent with \<open>k\<close> greater than \<open>n\<close>.
\<close>

theorem fetchVectors_cluster_request:
  assumes "cache this (getCacheKey this sourceConfig) = None"
    and "sourceProviders this (type' sourceConfig) = Some provider"
    and "provider sourceConfig = Inr rawVectors"
    and "1 \<le> length rawVectors"
  shows "fetchVectors pkg this sourceConfig =
           (case reduce_dimensions_svd pkg (map vector rawVectors) 3 of
              Inl e \<Rightarrow> (Inl e, this)
            | Inr reduced3d \<Rightarrow>
               (case cluster_vectors pkg (map vector rawVectors)
                       (min 10 (max 3 (length rawVectors div 50))) of
                  Inl e \<Rightarrow> (Inl e, this)
                | Inr clusters \<Rightarrow>
                    (Inr (merge_results rawVectors reduced3d clusters),
                     this\<lparr>cache := (cache this)(getCacheKey this sourceConfig \<mapsto>
                                      merge_results rawVectors reduced3d clusters)\<rparr>))) \<and>
         3 \<le> min 10 (max 3 (length rawVectors div 50)) \<and>
         min 10 (max 3 (length rawVectors div 50)) \<le> 10 \<and>
         (length rawVectors < 3 \<longrightarrow> length rawVectors < min 10 (max 3 (length rawVectors div 50))) \<and>
         clusterCount (length rawVectors) = min 10 (max 3 (length rawVectors div 50))"
proof -
  have k: "clusterCount (length rawVectors) = min 10 (max 3 (length rawVectors div 50))"
    by (simp add: clusterCount_def)
  show ?thesis
    using fetchVectors_provider_result [OF assms, of pkg, unfolded k] by (simp add: k)
qed

text \<open>
  On a vault of three notes with the links \<open>0 \<rightarrow> 1\<close>, \<open>0 \<rightarrow> 2\<close>, \<open>1 \<rightarrow> 2\<close> the reduction
  returns, 3 clusters are requested of the 3 vectors, and the points come back with
  the clusters assigned; on the vault with one note the count would be 3, above the
  number of vectors, and the error of the reduction is what comes back.
\<close>

theorem fetchVectors_cluster_request_witness:
  "map_sum id (map cluster)
     (fst (fetchVectors spec_pkg
        (vault_manager [note_point ''a.md'' [0, 1, 1], note_point ''b.md'' [0, 0, 1],
                        note_point ''c.md'' [0, 0, 0]])
        forward_links_config)) = Inr [0, 1, 2] \<and>
   clusterCount 3 = 3 \<and>
   fst (fetchVectors spec_pkg (vault_manager [note_point ''a.md'' [0]]) forward_links_config) =
     Inl (Error ''Reduction error'') \<and>
   1 < clusterCount 1"
proof -
  let ?pts3 = "[note_point ''a.md'' [0, 1, 1], note_point ''b.md'' [0, 0, 1],
                note_point ''c.md'' [0, 0, 0]]"
  let ?pts1 = "[note_point ''a.md'' [0]]"
  have miss: "cache (vault_manager pts) (getCacheKey (vault_manager pts) forward_links_config) = None"
    for pts by (simp add: vault_manager_def)
  have prov: "sourceProviders (vault_manager pts) (type' forward_links_config) = Some (\<lambda>c. Inr pts)"
    for pts by (simp add: vault_manager_def forward_links_config_def)
  have ret: "(\<lambda>c. Inr pts) forward_links_config = (Inr pts :: js_error + vector_data_point list)"
    for pts by simp
  have u3: "[0..<3] = [0, 1, 2]" by (simp add: upt_rec)
  have len3: "1 \<le> length ?pts3" and len1: "1 \<le> length ?pts1" by simp_all
  have k3: "min 10 (max 3 (length ?pts3 div 50)) = 3" by simp
  have red3: "reduce_dimensions_svd spec_pkg (map vector ?pts3) 3 =
              Inr [[0, 1, 1], [0, 0, 1], [0, 0, 0]]"
    by (simp add: spec_pkg_def reduce_def note_point_def)
  have clu3: "cluster_vectors spec_pkg (map vector ?pts3) 3 = Inr [0, 1, 2]"
    by (simp add: spec_pkg_def u3)
  have red1: "reduce_dimensions_svd spec_pkg (map vector ?pts1) 3 = Inl (Error ''Reduction error'')"
    by (simp add: spec_pkg_def reduce_def note_point_def)
  have "fst (fetchVectors spec_pkg (vault_manager ?pts3) forward_links_config) =
        Inr (merge_results ?pts3 [[0, 1, 1], [0, 0, 1], [0, 0, 0]] [0, 1, 2])"
    using fetchVectors_cluster_request [OF miss prov ret len3, of spec_pkg, THEN conjunct1]
    by (simp only: red3 k3 clu3 sum.case fst_conv)
  then have three: "map_sum id (map cluster)
      (fst (fetchVectors spec_pkg (vault_manager ?pts3) forward_links_config)) = Inr [0, 1, 2]"
    by (simp add: merge_results_def u3)
  have one: "fst (fetchVectors spec_pkg (vault_manager ?pts1) forward_links_config) =
      Inl (Error ''Reduction error'')"
    using fetchVectors_cluster_request [OF miss prov ret len1, of spec_pkg, THEN conjunct1]
    by (simp only: red1 sum.case fst_conv)
  from three one show ?thesis by (simp add: clusterCount_def)
qed

subsection \<open>C10: the categorical palette repeats\<close>

lemma js_rem_nonneg: "0 \<le> i \<Longrightarrow> js_rem i 8 = i mod 8"
  by (cases "i = 0") (simp_all add: js_rem_def)

lemma length_palette: "length palette = 8"
  by (simp add: palette_def)

text \<open>
  Claim C10. For every cluster index \<open>i\<close> (a non-negative integer) and every total \<open>t\<close>,
  the categorical scheme gives the indices \<open>i\<close> and \<open>i + 8\<close> the same colour, and the
  colour does not depend on the total; so with more than 8 clusters two distinct cluster
  indices below the total share a colour.
\<close>

theorem categorical_period_8:
  assumes "0 \<le> i"
  shows "categorical_getColor i t = categorical_getColor (i + 8) t \<and>
         categorical_getColor i t = categorical_getColor i t' \<and>
         (8 < t \<longrightarrow> (\<exists>a b. 0 \<le> a \<and> a < b \<and> b < t \<and>
                          categorical_getColor a t = categorical_getColor b t))"
proof (intro conjI impI)
  show "categorical_getColor i t = categorical_getColor (i + 8) t"
    using assms by (simp add: categorical_getColor_def length_palette js_rem_nonneg)
  show "categorical_getColor i t = categorical_getColor i t'"
    by (simp add: categorical_getColor_def)
  assume "8 < t"
  moreover have "categorical_getColor 0 t = categorical_getColor 8 t"
    by (simp add: categorical_getColor_def length_palette js_rem_def)
  ultimately show "\<exists>a b. 0 \<le> a \<and> a < b \<and> b < t \<and>
      categorical_getColor a t = categorical_getColor b t"
    by (intro exI [of _ 0] exI [of _ 8]) simp
qed

theorem categorical_period_8_witness:
  "(0::int) \<le> 3 \<and> categorical_getColor 3 9 = Color (Some 0xf7b731) \<and>
   categorical_getColor 11 9 = Color (Some 0xf7b731) \<and>
   categorical_getColor 3 9 = categorical_getColor 3 2 \<and>
   (\<exists>a b. 0 \<le> a \<and> a < b \<and> b < 9 \<and> categorical_getColor a 9 = categorical_getColor b 9)"
proof -
  have c: "categorical_getColor 3 9 = Color (Some 0xf7b731)"
    by (simp add: categorical_getColor_def js_rem_def js_index_def palette_def)
  have h: "(0::int) \<le> 3" and l: "(8::int) < 9" by simp_all
  note inst = categorical_period_8 [OF h, of 9 2]
  from inst have p: "categorical_getColor 3 9 = categorical_getColor (3 + 8) 9"
    by (rule conjunct1)
  from inst have t: "categorical_getColor 3 9 = categorical_getColor 3 2"
    by (rule conjunct1 [OF conjunct2])
  from inst l have e: "\<exists>a b. 0 \<le> a \<and> a < b \<and> b < 9 \<and>
      categorical_getColor a 9 = categorical_getColor b 9"
    by blast
  from p c have "categorical_getColor 11 9 = Color (Some 0xf7b731)" by simp
  with c t e h show ?thesis by blast
qed

end
